theory Spec2Isabelle
  imports Main "HOL-Library.AList" "HOL-Library.Word"
begin

unbundle bit_operations_syntax

section \<open>Go strings and the library calls of the mail code\<close>

text \<open>
  A Go string is a sequence of bytes; it is modelled as \<open>string\<close> (a list of
  \<open>char\<close>, one per byte).  The library calls of \<^verbatim>\<open>internal/cmd/mail.go\<close> are
  written out as list functions: \<^verbatim>\<open>strings.HasPrefix\<close>, \<^verbatim>\<open>strings.SplitN\<close>
  with a one-byte separator, \<^verbatim>\<open>strings.TrimSpace\<close> and \<^verbatim>\<open>hex.EncodeToString\<close>.
\<close>

definition HasPrefix :: "string \<Rightarrow> string \<Rightarrow> bool" where
  "HasPrefix s pre = (take (length pre) s = pre)"

text \<open>
  \<^verbatim>\<open>strings.SplitN(s, sep, n)\<close> for a separator of one byte: \<open>n = 0\<close> gives no
  piece, otherwise at most \<open>n\<close> pieces, the last one being the unsplit rest.
\<close>

fun SplitN :: "string \<Rightarrow> char \<Rightarrow> nat \<Rightarrow> string list" where
  "SplitN s sep 0 = []"
| "SplitN s sep (Suc 0) = [s]"
| "SplitN s sep (Suc (Suc n)) =
     (if sep \<in> set s
      then takeWhile (\<lambda>c. c \<noteq> sep) s # SplitN (tl (dropWhile (\<lambda>c. c \<noteq> sep) s)) sep (Suc n)
      else [s])"

text \<open>
  \<^verbatim>\<open>strings.TrimSpace\<close> removes the leading and the trailing white space runes
  of Unicode; \<open>space_runes\<close> lists their UTF-8 encodings (tab, line feed, vertical
  tab, form feed, carriage return, space, U+0085, U+00A0, U+1680, U+2000 to U+200A,
  U+2028, U+2029, U+202F, U+205F, U+3000).
\<close>

definition space_runes :: "string list" where
  "space_runes =
     [[CHR 0x09], [CHR 0x0A], [CHR 0x0B], [CHR 0x0C], [CHR 0x0D], [CHR 0x20],
      [CHR 0xC2, CHR 0x85], [CHR 0xC2, CHR 0xA0], [CHR 0xE1, CHR 0x9A, CHR 0x80]]
     @ map (\<lambda>b. [CHR 0xE2, CHR 0x80, b])
         [CHR 0x80, CHR 0x81, CHR 0x82, CHR 0x83, CHR 0x84, CHR 0x85, CHR 0x86, CHR 0x87,
          CHR 0x88, CHR 0x89, CHR 0x8A, CHR 0xA8, CHR 0xA9, CHR 0xAF]
     @ [[CHR 0xE2, CHR 0x81, CHR 0x9F], [CHR 0xE3, CHR 0x80, CHR 0x80]]"

function TrimLeftSpace :: "string \<Rightarrow> string" where
  "TrimLeftSpace s =
     (case find (\<lambda>r. r \<noteq> [] \<and> take (length r) s = r) space_runes of
        None \<Rightarrow> s
      | Some r \<Rightarrow> TrimLeftSpace (drop (length r) s))"
  by pat_completeness auto
termination
proof (relation "measure length")
  show "wf (measure length)" by simp
next
  fix s :: string and r :: string
  assume "find (\<lambda>r. r \<noteq> [] \<and> take (length r) s = r) space_runes = Some r"
  then have "r \<noteq> [] \<and> take (length r) s = r"
    by (auto simp: find_Some_iff)
  then have "0 < length r \<and> length r \<le> length s"
    by (metis length_greater_0_conv length_take min.cobounded1)
  then have "length s - length r < length s"
    by arith
  then show "(drop (length r) s, s) \<in> measure length"
    by simp
qed

function TrimRightSpace :: "string \<Rightarrow> string" where
  "TrimRightSpace s =
     (case find (\<lambda>r. r \<noteq> [] \<and> length r \<le> length s \<and> drop (length s - length r) s = r) space_runes of
        None \<Rightarrow> s
      | Some r \<Rightarrow> TrimRightSpace (take (length s - length r) s))"
  by pat_completeness auto
termination
proof (relation "measure length")
  show "wf (measure length)" by simp
next
  fix s :: string and r :: string
  assume "find (\<lambda>r. r \<noteq> [] \<and> length r \<le> length s \<and> drop (length s - length r) s = r) space_runes = Some r"
  then have "r \<noteq> [] \<and> length r \<le> length s"
    by (auto simp: find_Some_iff)
  then have "0 < length r \<and> length r \<le> length s"
    by simp
  then have "length s - length r < length s"
    by arith
  then show "(take (length s - length r) s, s) \<in> measure length"
    by simp
qed

definition TrimSpace :: "string \<Rightarrow> string" where
  "TrimSpace s = TrimRightSpace (TrimLeftSpace s)"

text \<open>
  \<^verbatim>\<open>fmt.Sprintf("%d", n)\<close>: the decimal digits of an integer, with a minus sign
  for a negative one.
\<close>

fun decimal :: "nat \<Rightarrow> string" where
  "decimal n =
     (if n < 10 then [''0123456789'' ! n]
      else decimal (n div 10) @ [''0123456789'' ! (n mod 10)])"

definition Sprintf_d :: "int \<Rightarrow> string" where
  "Sprintf_d i = (if i < 0 then CHR ''-'' # decimal (nat (- i)) else decimal (nat i))"

text \<open>
  \<^verbatim>\<open>hex.EncodeToString\<close>: two characters of \<^verbatim>\<open>"0123456789abcdef"\<close> for each byte,
  the high half first.
\<close>

definition hextable :: string where
  "hextable = ''0123456789abcdef''"

fun EncodeToString :: "8 word list \<Rightarrow> string" where
  "EncodeToString [] = []"
| "EncodeToString (v # src) =
     hextable ! unat (drop_bit 4 v) # hextable ! unat (v AND 0x0f) # EncodeToString src"

section \<open>Messages (package mail)\<close>

text \<open>
  A Go \<^verbatim>\<open>error\<close> is modelled by its message text; \<open>None\<close> is \<^verbatim>\<open>nil\<close>.
\<close>

type_synonym error = string

text \<open>
  Modelled from the spec: the declarations of \<^verbatim>\<open>Priority\<close>, \<^verbatim>\<open>MessageType\<close>,
  \<^verbatim>\<open>Delivery\<close> and \<^verbatim>\<open>Message\<close> of package mail are not part of the sources at
  hand.  The router compares a message type with the empty string and converts it
  with \<^verbatim>\<open>string(msg.Type)\<close>, so the three enumerations are string types; their
  constants carry the names of the command's help text (priority low, normal, high,
  urgent; type task, scavenge, notification, reply; delivery queue, interrupt).  The
  fields of a message are those the code reads and writes.
\<close>

type_synonym Priority = string
type_synonym MessageType = string
type_synonym Delivery = string

definition PriorityLow :: Priority where "PriorityLow = ''low''"
definition PriorityNormal :: Priority where "PriorityNormal = ''normal''"
definition PriorityHigh :: Priority where "PriorityHigh = ''high''"
definition PriorityUrgent :: Priority where "PriorityUrgent = ''urgent''"

definition TypeTask :: MessageType where "TypeTask = ''task''"
definition TypeScavenge :: MessageType where "TypeScavenge = ''scavenge''"
definition TypeNotification :: MessageType where "TypeNotification = ''notification''"
definition TypeReply :: MessageType where "TypeReply = ''reply''"

definition DeliveryQueue :: Delivery where "DeliveryQueue = ''queue''"
definition DeliveryInterrupt :: Delivery where "DeliveryInterrupt = ''interrupt''"

record Message =
  ID :: string
  From :: string
  To :: string
  Subject :: string
  Body :: string
  Timestamp :: int
  Read :: bool
  Priority :: Priority
  Type :: MessageType
  Delivery :: Delivery
  ThreadID :: string
  ReplyTo :: string

text \<open>
  Modelled from the spec: a mailbox is the view of the durable store for one
  resolved identity; the type \<^verbatim>\<open>Mailbox\<close> is not part of the sources at hand.
\<close>

record Mailbox =
  identity :: string
  beadsDir :: string

text \<open>
  The functions of package mail that the code calls and whose bodies are not part
  of the sources at hand are parameters of the model.
\<close>

record mail_pkg =
  ParsePriority :: "string \<Rightarrow> Priority"
  ParseMessageType :: "string \<Rightarrow> MessageType"
  PriorityToBeads :: "Priority \<Rightarrow> int"
  addressToIdentity :: "string \<Rightarrow> string"
  NewMailboxFromAddress :: "string \<Rightarrow> string \<Rightarrow> Mailbox"

section \<open>The external ports\<close>

text \<open>
  The terminal multiplexer behind \<^verbatim>\<open>r.tmux\<close>: whether a session exists (a value
  or an error), a message on the status line, text typed into the session.
\<close>

record Tmux =
  HasSession :: "string \<Rightarrow> error + bool"
  DisplayMessageDefault :: "string \<Rightarrow> string \<Rightarrow> error option"
  SendKeysRaw :: "string \<Rightarrow> string \<Rightarrow> error option"

text \<open>
  Everything else the commands read from outside: the result of
  \<^verbatim>\<open>findBeadsWorkDir\<close> and of \<^verbatim>\<open>detectSender\<close> (both look at the file system and
  the environment), the bytes \<^verbatim>\<open>crypto/rand\<close> delivers, the run of the \<^verbatim>\<open>bd\<close>
  command (arguments, added environment entry, directory) with its error and its
  standard error text, the message a mailbox returns for an id, the result of the
  \<open>i\<close>-th \<^verbatim>\<open>Count()\<close> of a mailbox, and the \<open>i\<close>-th reading of the clock in
  nanoseconds.
\<close>

record world =
  findBeadsWorkDir :: "error + string"
  detectSender :: string
  rand_Read :: "nat \<Rightarrow> 8 word"
  exec_bd :: "string list \<Rightarrow> string \<Rightarrow> string \<Rightarrow> error option \<times> string"
  NewTmux :: Tmux
  Mailbox_Get :: "Mailbox \<Rightarrow> string \<Rightarrow> error + Message"
  Mailbox_Count :: "Mailbox \<Rightarrow> nat \<Rightarrow> error + (int \<times> int)"
  time_Now :: "nat \<Rightarrow> int"

text \<open>The calls a command makes to the ports, in order.\<close>

datatype event =
  BdRun "string list" string string
| TmuxHasSession string
| TmuxDisplayMessageDefault string string
| TmuxSendKeysRaw string string

section \<open>Address resolution (package mail, router)\<close>

text \<open>
  \<^verbatim>\<open>
  func addressToSessionID(address string) string {
      if strings.HasPrefix(address, "mayor") { return "gt-mayor" }
      parts := strings.SplitN(address, "/", 2)
      if len(parts) != 2 || parts[1] == "" { return "" }
      rig := parts[0]
      target := parts[1]
      return fmt.Sprintf("gt-%s-%s", rig, target)
  }
  \<close>
\<close>

definition addressToSessionID :: "string \<Rightarrow> string" where
  "addressToSessionID address =
     (if HasPrefix address ''mayor'' then ''gt-mayor''
      else (case SplitN address CHR ''/'' 2 of
              [rig, target] \<Rightarrow> (if target = '''' then '''' else ''gt-'' @ rig @ ''-'' @ target)
            | _ \<Rightarrow> ''''))"

section \<open>The router (package mail)\<close>

record Router =
  workDir :: string
  tmux :: Tmux

definition NewRouter :: "world \<Rightarrow> string \<Rightarrow> Router" where
  "NewRouter w dir = \<lparr>workDir = dir, tmux = NewTmux w\<rparr>"

text \<open>
  The text \<^verbatim>\<open>notifyRecipient\<close> shows on the status line:
  \<^verbatim>\<open>fmt.Sprintf("[MAIL] From %s: %s", msg.From, msg.Subject)\<close>.
\<close>

definition notification :: "Message \<Rightarrow> string" where
  "notification msg = ''[MAIL] From '' @ From msg @ '': '' @ Subject msg"

text \<open>
  \<^verbatim>\<open>notifyRecipient\<close> returns its error together with the calls it made.
\<close>

definition notifyRecipient :: "Router \<Rightarrow> Message \<Rightarrow> error option \<times> event list" where
  "notifyRecipient r msg =
     (let sessionID = addressToSessionID (To msg) in
      if sessionID = '''' then (None, [])
      else (case HasSession (tmux r) sessionID of
              Inl err \<Rightarrow> (None, [TmuxHasSession sessionID])
            | Inr hasSession \<Rightarrow>
                if \<not> hasSession then (None, [TmuxHasSession sessionID])
                else (DisplayMessageDefault (tmux r) sessionID (notification msg),
                      [TmuxHasSession sessionID,
                       TmuxDisplayMessageDefault sessionID (notification msg)])))"

text \<open>
  The text \<^verbatim>\<open>interruptRecipient\<close> builds.  The nine bytes after the first line are
  the bytes of the source file between \<^verbatim>\<open><system-reminder>\n\<close> and
  \<^verbatim>\<open> NEW MAIL\<close>.
\<close>

definition mail_glyph :: string where
  "mail_glyph = [CHR 0xC3, CHR 0xB0, CHR 0xC5, CHR 0xB8, CHR 0xE2, CHR 0x80, CHR 0x9C,
                 CHR 0xC2, CHR 0xAC]"

definition priorityStr :: "Message \<Rightarrow> string" where
  "priorityStr msg =
     (if Priority msg = PriorityUrgent then '' [URGENT]''
      else if Priority msg = PriorityHigh then '' [HIGH PRIORITY]''
      else '''')"

definition reminder :: "Message \<Rightarrow> string" where
  "reminder msg =
     (''\<newline><system-reminder>\<newline>'' @ mail_glyph @ '' NEW MAIL'' @ priorityStr msg
        @ '' from '' @ From msg @ ''\<newline>Subject: '' @ Subject msg @ ''\<newline>'')
     @ (if Body msg \<noteq> '''' then ''\<newline>'' @ Body msg @ ''\<newline>'' else '''')
     @ (''\<newline>Run '' @ [CHR 0x27] @ ''gt mail inbox'' @ [CHR 0x27]
        @ '' to see your messages.\<newline></system-reminder>\<newline>'')"

definition interruptRecipient :: "Router \<Rightarrow> Message \<Rightarrow> error option \<times> event list" where
  "interruptRecipient r msg =
     (let sessionID = addressToSessionID (To msg) in
      if sessionID = '''' then (None, [])
      else (case HasSession (tmux r) sessionID of
              Inl err \<Rightarrow> (None, [TmuxHasSession sessionID])
            | Inr hasSession \<Rightarrow>
                if \<not> hasSession then (None, [TmuxHasSession sessionID])
                else (SendKeysRaw (tmux r) sessionID (reminder msg),
                      [TmuxHasSession sessionID, TmuxSendKeysRaw sessionID (reminder msg)])))"

text \<open>
  The argument list \<^verbatim>\<open>Send\<close> builds for \<^verbatim>\<open>bd mail send\<close>.
\<close>

definition send_args :: "mail_pkg \<Rightarrow> Message \<Rightarrow> string list" where
  "send_args lib msg =
     (let toIdentity = addressToIdentity lib (To msg);
          args = [''mail'', ''send'', toIdentity, ''-s'', Subject msg, ''-m'', Body msg];
          beadsPriority = PriorityToBeads lib (Priority msg);
          args = args @ [''--priority'', Sprintf_d beadsPriority];
          args = (if Type msg \<noteq> '''' \<and> Type msg \<noteq> TypeNotification
                  then args @ [''--type'', Type msg] else args);
          args = (if ThreadID msg \<noteq> '''' then args @ [''--thread-id'', ThreadID msg] else args);
          args = (if ReplyTo msg \<noteq> '''' then args @ [''--reply-to'', ReplyTo msg] else args)
      in args)"

text \<open>
  \<^verbatim>\<open>Send\<close>: run \<^verbatim>\<open>bd\<close>; when the run fails, return the error (the trimmed
  standard error text, or the wrapped error of the run when that text is empty);
  otherwise interrupt or notify the recipient, drop what that returns, and return
  \<^verbatim>\<open>nil\<close>.  The second component lists the calls made, in order.
\<close>

definition Send :: "mail_pkg \<Rightarrow> world \<Rightarrow> Router \<Rightarrow> Message \<Rightarrow> error option \<times> event list" where
  "Send lib w r msg =
     (let fromIdentity = addressToIdentity lib (From msg);
          args = send_args lib msg;
          env = ''BEADS_AGENT_NAME='' @ fromIdentity;
          run = BdRun args env (workDir r)
      in case exec_bd w args env (workDir r) of
           (Some err, stderr) \<Rightarrow>
             (let errMsg = TrimSpace stderr in
              if errMsg \<noteq> '''' then (Some errMsg, [run])
              else (Some (''sending message: '' @ err), [run]))
         | (None, stderr) \<Rightarrow>
             (if Delivery msg = DeliveryInterrupt
              then (None, run # snd (interruptRecipient r msg))
              else (None, run # snd (notifyRecipient r msg))))"

definition GetMailbox :: "mail_pkg \<Rightarrow> Router \<Rightarrow> string \<Rightarrow> Mailbox \<times> error option" where
  "GetMailbox lib r address = (NewMailboxFromAddress lib address (workDir r), None)"

section \<open>The mail commands (package cmd)\<close>

text \<open>
  The flags of \<^verbatim>\<open>gt mail send\<close> as given on the command line (\<open>None\<close> for a flag
  that is not given), and the package variables \<^verbatim>\<open>init\<close> binds them to with their
  default values.
\<close>

record send_cli =
  flag_subject :: string
  flag_message :: "string option"
  flag_priority :: "string option"
  flag_type :: "string option"
  flag_reply_to :: "string option"
  flag_notify :: "bool option"
  flag_interrupt :: "bool option"

record mail_flags =
  mailSubject :: string
  mailBody :: string
  mailPriority :: string
  mailType :: string
  mailReplyTo :: string
  mailNotify :: bool
  mailInterrupt :: bool

definition init_flags :: "send_cli \<Rightarrow> mail_flags" where
  "init_flags c =
     \<lparr>mailSubject = flag_subject c,
      mailBody = (case flag_message c of None \<Rightarrow> '''' | Some v \<Rightarrow> v),
      mailPriority = (case flag_priority c of None \<Rightarrow> ''normal'' | Some v \<Rightarrow> v),
      mailType = (case flag_type c of None \<Rightarrow> ''notification'' | Some v \<Rightarrow> v),
      mailReplyTo = (case flag_reply_to c of None \<Rightarrow> '''' | Some v \<Rightarrow> v),
      mailNotify = (case flag_notify c of None \<Rightarrow> False | Some v \<Rightarrow> v),
      mailInterrupt = (case flag_interrupt c of None \<Rightarrow> False | Some v \<Rightarrow> v)\<rparr>"

text \<open>
  \<^verbatim>\<open>
  func generateThreadID() string {
      b := make([]byte, 6)
      rand.Read(b)
      return "thread-" + hex.EncodeToString(b)
  }
  \<close>
\<close>

definition generateThreadID :: "world \<Rightarrow> string" where
  "generateThreadID w =
     (let b = map (rand_Read w) [0..<6] in ''thread-'' @ EncodeToString b)"

text \<open>
  The message \<^verbatim>\<open>runMailSend\<close> has built when it calls the router: the statements
  from \<^verbatim>\<open>from := detectSender()\<close> to the generation of the thread id, for the
  work directory \<open>dir\<close> and the recipient \<open>to\<close>.
\<close>

definition runMailSend_msg :: "mail_pkg \<Rightarrow> world \<Rightarrow> mail_flags \<Rightarrow> string \<Rightarrow> string \<Rightarrow> Message" where
  "runMailSend_msg lib w fl dir to =
     (let from = detectSender w;
          msg = \<lparr>ID = '''', From = from, To = to, Subject = mailSubject fl, Body = mailBody fl,
                 Timestamp = 0, Read = False, Priority = '''', Type = '''', Delivery = '''',
                 ThreadID = '''', ReplyTo = ''''\<rparr>;
          msg = msg\<lparr>Priority := ParsePriority lib (mailPriority fl)\<rparr>;
          msg = (if mailNotify fl \<and> Priority msg = PriorityNormal
                 then msg\<lparr>Priority := PriorityHigh\<rparr> else msg);
          msg = (if mailInterrupt fl then msg\<lparr>Delivery := DeliveryInterrupt\<rparr>
                 else msg\<lparr>Delivery := DeliveryQueue\<rparr>);
          msg = msg\<lparr>Type := ParseMessageType lib (mailType fl)\<rparr>;
          msg = (if mailReplyTo fl \<noteq> '''' then
                   (let msg = msg\<lparr>ReplyTo := mailReplyTo fl\<rparr>;
                        msg = (if Type msg = TypeNotification then msg\<lparr>Type := TypeReply\<rparr>
                               else msg);
                        router = NewRouter w dir
                    in case GetMailbox lib router from of
                         (mailbox, None) \<Rightarrow>
                           (case Mailbox_Get w mailbox (mailReplyTo fl) of
                              Inr original \<Rightarrow> msg\<lparr>ThreadID := ThreadID original\<rparr>
                            | Inl err \<Rightarrow> msg)
                       | (mailbox, Some err) \<Rightarrow> msg)
                 else msg);
          msg = (if ThreadID msg = '''' then msg\<lparr>ThreadID := generateThreadID w\<rparr> else msg)
      in msg)"

text \<open>
  \<^verbatim>\<open>runMailSend\<close>: the error it returns and the calls the router made.
\<close>

definition runMailSend :: "mail_pkg \<Rightarrow> world \<Rightarrow> mail_flags \<Rightarrow> string \<Rightarrow> error option \<times> event list" where
  "runMailSend lib w fl to =
     (case findBeadsWorkDir w of
        Inl err \<Rightarrow> (Some (''not in a Gas Town workspace: '' @ err), [])
      | Inr dir \<Rightarrow>
          (let msg = runMailSend_msg lib w fl dir to;
               router = NewRouter w dir
           in case Send lib w router msg of
                (Some err, tr) \<Rightarrow> (Some (''sending message: '' @ err), tr)
              | (None, tr) \<Rightarrow> (None, tr)))"

subsection \<open>Waiting for mail\<close>

text \<open>
  \<^verbatim>\<open>runMailWait\<close> ends the process with \<^verbatim>\<open>os.Exit\<close>: code 0 when mail has arrived,
  1 on a timeout, 2 on an error.
\<close>

datatype wait_outcome = MailArrived | TimedOut | Errored

fun exit_code :: "wait_outcome \<Rightarrow> int" where
  "exit_code MailArrived = 0"
| "exit_code TimedOut = 1"
| "exit_code Errored = 2"

datatype wait_event = CountCall | Sleep int

text \<open>
  Time is counted in nanoseconds.  \<^verbatim>\<open>time.Duration(n) * time.Second\<close> is a product
  of 64-bit integers and wraps around.
\<close>

definition Second :: int where
  "Second = 1000000000"

definition seconds :: "int \<Rightarrow> int" where
  "seconds n = sint (word_of_int n * word_of_int Second :: 64 word)"

definition pollInterval :: int where
  "pollInterval = sint (5 * word_of_int Second :: 64 word)"

definition After :: "int \<Rightarrow> int \<Rightarrow> bool" where
  "After t u = (u < t)"

text \<open>
  The loop of \<^verbatim>\<open>runMailWait\<close>, at its iteration \<open>i\<close>, with the calls made so far.
  The loop has no bound: it is a partial function, and \<open>None\<close> stands for a
  run that never leaves the loop.  The clock is read once before the loop when a
  timeout is given, and once in every iteration that finds no mail.
\<close>

partial_function (option) wait_loop ::
  "world \<Rightarrow> Mailbox \<Rightarrow> int \<Rightarrow> int \<Rightarrow> nat \<Rightarrow> wait_event list \<Rightarrow> (wait_outcome \<times> wait_event list) option"
where
  "wait_loop w mailbox mailWaitTimeout deadline i tr =
     (case Mailbox_Count w mailbox i of
        Inl err \<Rightarrow> Some (Errored, tr @ [CountCall])
      | Inr (_, unread) \<Rightarrow>
          if unread > 0 then Some (MailArrived, tr @ [CountCall])
          else if mailWaitTimeout > 0 \<and> After (time_Now w (Suc i)) deadline
          then Some (TimedOut, tr @ [CountCall])
          else wait_loop w mailbox mailWaitTimeout deadline (Suc i)
                 (tr @ [CountCall, Sleep pollInterval]))"

declare wait_loop.simps [code]

definition runMailWait :: "mail_pkg \<Rightarrow> world \<Rightarrow> int \<Rightarrow> (wait_outcome \<times> wait_event list) option" where
  "runMailWait lib w mailWaitTimeout =
     (case findBeadsWorkDir w of
        Inl err \<Rightarrow> Some (Errored, [])
      | Inr dir \<Rightarrow>
          (let address = detectSender w;
               router = NewRouter w dir
           in case GetMailbox lib router address of
                (mailbox, Some err) \<Rightarrow> Some (Errored, [])
              | (mailbox, None) \<Rightarrow>
                  (let deadline = (if mailWaitTimeout > 0
                                   then time_Now w 0 + seconds mailWaitTimeout else 0)
                   in wait_loop w mailbox mailWaitTimeout deadline 0 [])))"

section \<open>The session registry (package session)\<close>

text \<open>
  Modelled from the spec: the sources at hand hold the tests of package session and
  not its functions.  A registry pairs short prefixes with rig names in both
  directions; \<^verbatim>\<open>Register\<close> adds or overwrites one pair; \<^verbatim>\<open>IsKnownSession\<close> is true
  for every name that starts with the reserved prefix \<^verbatim>\<open>hq-\<close>, and otherwise true
  exactly when the name starts with a registered prefix followed by \<^verbatim>\<open>-\<close> (the spec
  asks \<^verbatim>\<open>IsKnownSession(p + "-" + anything)\<close> to hold for every registered prefix
  \<open>p\<close>).  The process-wide default registry is the argument \<open>reg\<close>.
\<close>

record PrefixRegistry =
  prefixToRig :: "(string \<times> string) list"
  rigToPrefix :: "(string \<times> string) list"

definition NewPrefixRegistry :: PrefixRegistry where
  "NewPrefixRegistry = \<lparr>prefixToRig = [], rigToPrefix = []\<rparr>"

definition Register :: "string \<Rightarrow> string \<Rightarrow> PrefixRegistry \<Rightarrow> PrefixRegistry" where
  "Register p rigName reg =
     \<lparr>prefixToRig = AList.update p rigName (prefixToRig reg),
      rigToPrefix = AList.update rigName p (rigToPrefix reg)\<rparr>"

definition HQPrefix :: string where
  "HQPrefix = ''hq-''"

fun matchPrefix :: "(string \<times> string) list \<Rightarrow> string \<Rightarrow> bool" where
  "matchPrefix [] name = False"
| "matchPrefix ((p, rigName) # ps) name =
     (if HasPrefix name (p @ ''-'') then True else matchPrefix ps name)"

definition IsKnownSession :: "PrefixRegistry \<Rightarrow> string \<Rightarrow> bool" where
  "IsKnownSession reg name =
     (if HasPrefix name HQPrefix then True else matchPrefix (prefixToRig reg) name)"

section \<open>What Send asks of the store, and which calls reach a live session\<close>

text \<open>
  The outcome of the \<^verbatim>\<open>bd\<close> run that \<^verbatim>\<open>Send\<close> starts for a message: the store
  has persisted the message exactly when the error of that run is \<^verbatim>\<open>nil\<close>.
\<close>

definition persist_run :: "mail_pkg \<Rightarrow> Router \<Rightarrow> Message \<Rightarrow> event" where
  "persist_run lib r msg =
     BdRun (send_args lib msg) (''BEADS_AGENT_NAME='' @ addressToIdentity lib (From msg)) (workDir r)"

definition persist_error :: "mail_pkg \<Rightarrow> world \<Rightarrow> Router \<Rightarrow> Message \<Rightarrow> error option" where
  "persist_error lib w r msg =
     fst (exec_bd w (send_args lib msg)
            (''BEADS_AGENT_NAME='' @ addressToIdentity lib (From msg)) (workDir r))"

fun live_session_call :: "event \<Rightarrow> bool" where
  "live_session_call (BdRun args env dir) = False"
| "live_session_call (TmuxHasSession s) = True"
| "live_session_call (TmuxDisplayMessageDefault s t) = True"
| "live_session_call (TmuxSendKeysRaw s t) = True"

section \<open>The state machine of the wait poller, in the words of the spec\<close>

text \<open>
  This definition follows the spec and not the code; the theorems compare the loop
  of \<^verbatim>\<open>runMailWait\<close> with it.  One iteration, given the result of \<^verbatim>\<open>Count()\<close>,
  whether a deadline is set and whether it has passed: a failed count ends in
  Errored; unread mail ends in MailArrived; otherwise a deadline that is set and has
  passed ends in TimedOut; otherwise the poller sleeps and repeats.
\<close>

datatype poll_step = Terminal wait_outcome | SleepAndRepeat

definition spec_poll_step :: "error + (int \<times> int) \<Rightarrow> bool \<Rightarrow> bool \<Rightarrow> poll_step" where
  "spec_poll_step count deadline_set deadline_passed =
     (case count of
        Inl err \<Rightarrow> Terminal Errored
      | Inr (n, unread) \<Rightarrow>
          if unread > 0 then Terminal MailArrived
          else if deadline_set \<and> deadline_passed then Terminal TimedOut
          else SleepAndRepeat)"

text \<open>
  The step of the spec at iteration \<open>i\<close> of a run of the code: the \<open>i\<close>-th count
  of the mailbox, a deadline set exactly for a positive timeout, and the clock read
  in that iteration compared with the deadline.
\<close>

definition poll_at :: "world \<Rightarrow> Mailbox \<Rightarrow> int \<Rightarrow> int \<Rightarrow> nat \<Rightarrow> poll_step" where
  "poll_at w mailbox mailWaitTimeout deadline i =
     spec_poll_step (Mailbox_Count w mailbox i) (mailWaitTimeout > 0)
       (After (time_Now w (Suc i)) deadline)"

section \<open>Instances for evaluation\<close>

text \<open>
  Modelled from the spec: an instance of the functions of package mail that are not
  part of the sources at hand.  The parsers map the four names of each enumeration to
  their constants and every other text to the default (priority normal, type
  notification); the durable identity is the address passed through; the priority
  codes stand for the codes of the store.
\<close>

definition example_lib :: mail_pkg where
  "example_lib =
     \<lparr>ParsePriority = (\<lambda>s. if s = ''low'' then PriorityLow
                            else if s = ''high'' then PriorityHigh
                            else if s = ''urgent'' then PriorityUrgent
                            else PriorityNormal),
      ParseMessageType = (\<lambda>s. if s = ''task'' then TypeTask
                               else if s = ''scavenge'' then TypeScavenge
                               else if s = ''reply'' then TypeReply
                               else TypeNotification),
      PriorityToBeads = (\<lambda>p. if p = PriorityUrgent then 0
                              else if p = PriorityHigh then 1
                              else if p = PriorityLow then 3
                              else 2),
      addressToIdentity = (\<lambda>a. a),
      NewMailboxFromAddress = (\<lambda>a dir. \<lparr>identity = a, beadsDir = dir\<rparr>)\<rparr>"

text \<open>
  A multiplexer whose presence check answers \<open>has\<close> and whose two writing calls
  both fail.
\<close>

definition example_tmux :: "error + bool \<Rightarrow> Tmux" where
  "example_tmux has =
     \<lparr>HasSession = (\<lambda>s. has),
      DisplayMessageDefault = (\<lambda>s t. Some ''display-message failed''),
      SendKeysRaw = (\<lambda>s t. Some ''send-keys failed'')\<rparr>"

text \<open>
  A world in which the \<^verbatim>\<open>bd\<close> run ends with \<open>run\<close>, the multiplexer is \<open>t\<close>, every
  lookup of a message answers \<open>got\<close>, the mailbox holds no unread mail at the first
  two counts and one unread message from the third on, and five seconds pass between
  two readings of the clock.
\<close>

definition example_world :: "error option \<times> string \<Rightarrow> Tmux \<Rightarrow> error + Message \<Rightarrow> world" where
  "example_world run t got =
     \<lparr>findBeadsWorkDir = Inr ''/town'',
      detectSender = ''gastown/Toast'',
      rand_Read = (\<lambda>i. of_nat (16 * i + 10)),
      exec_bd = (\<lambda>args env dir. run),
      NewTmux = t,
      Mailbox_Get = (\<lambda>mailbox id. got),
      Mailbox_Count = (\<lambda>mailbox i. if i < 2 then Inr (3, 0) else Inr (4, 1)),
      time_Now = (\<lambda>i. 1000 + int i * 5000000000)\<rparr>"

definition example_msg :: Message where
  "example_msg =
     \<lparr>ID = '''', From = ''mayor/'', To = ''gastown/Toast'', Subject = ''S'', Body = ''B'',
      Timestamp = 0, Read = False, Priority = PriorityUrgent, Type = TypeNotification,
      Delivery = DeliveryQueue, ThreadID = ''thread-abc123'', ReplyTo = ''''\<rparr>"

definition example_flags :: mail_flags where
  "example_flags = init_flags
     \<lparr>flag_subject = ''Re: Status'', flag_message = Some ''Done'', flag_priority = None,
      flag_type = None, flag_reply_to = Some ''msg-abc123'', flag_notify = None,
      flag_interrupt = None\<rparr>"

section \<open>Facts about the string functions\<close>

lemma HasPrefix_append: "HasPrefix (pre @ s) pre"
  by (simp add: HasPrefix_def)

lemma SplitN_2_no_sep: "sep \<notin> set s \<Longrightarrow> SplitN s sep 2 = [s]"
  by (simp add: numeral_2_eq_2)

lemma SplitN_2_sep:
  "sep \<notin> set a \<Longrightarrow> SplitN (a @ sep # b) sep 2 = [a, b]"
proof -
  assume a: "sep \<notin> set a"
  then have "takeWhile (\<lambda>c. c \<noteq> sep) (a @ sep # b) = a @ takeWhile (\<lambda>c. c \<noteq> sep) (sep # b)"
    by (intro takeWhile_append2) auto
  then have t: "takeWhile (\<lambda>c. c \<noteq> sep) (a @ sep # b) = a"
    by simp
  from a have "dropWhile (\<lambda>c. c \<noteq> sep) (a @ sep # b) = dropWhile (\<lambda>c. c \<noteq> sep) (sep # b)"
    by (intro dropWhile_append2) auto
  then have d: "tl (dropWhile (\<lambda>c. c \<noteq> sep) (a @ sep # b)) = b"
    by simp
  show ?thesis
    by (simp add: numeral_2_eq_2 t d)
qed

section \<open>Session identities\<close>

text \<open>
  Claim C4.  An address that begins with \<open>mayor\<close> resolves to the fixed session
  identity \<open>gt-mayor\<close>.  The other addresses are read in the order of the code: an
  address \<open>rig/target\<close> whose rig holds no separator and whose target is not empty
  resolves to \<open>gt-rig-target\<close>; an address with no separator at all, and an address
  \<open>rig/\<close> with an empty target, resolve to the empty string, which is a value and
  not an error.
\<close>

theorem addressToSessionID_cases:
  "(HasPrefix address ''mayor'' \<longrightarrow> addressToSessionID address = ''gt-mayor'')
   \<and> (\<not> HasPrefix (rig @ ''/'' @ target) ''mayor'' \<and> CHR ''/'' \<notin> set rig \<and> target \<noteq> ''''
        \<longrightarrow> addressToSessionID (rig @ ''/'' @ target) = ''gt-'' @ rig @ ''-'' @ target)
   \<and> (\<not> HasPrefix address ''mayor'' \<and> CHR ''/'' \<notin> set address
        \<longrightarrow> addressToSessionID address = '''')
   \<and> (\<not> HasPrefix (rig @ ''/'') ''mayor'' \<and> CHR ''/'' \<notin> set rig
        \<longrightarrow> addressToSessionID (rig @ ''/'') = '''')"
proof (intro conjI impI)
  assume "HasPrefix address ''mayor''"
  then show "addressToSessionID address = ''gt-mayor''"
    by (simp add: addressToSessionID_def)
next
  assume h: "\<not> HasPrefix (rig @ ''/'' @ target) ''mayor'' \<and> CHR ''/'' \<notin> set rig \<and> target \<noteq> ''''"
  then have "SplitN (rig @ ''/'' @ target) CHR ''/'' 2 = [rig, target]"
    using SplitN_2_sep [of "CHR ''/''" rig target] by simp
  with h show "addressToSessionID (rig @ ''/'' @ target) = ''gt-'' @ rig @ ''-'' @ target"
    by (simp add: addressToSessionID_def)
next
  assume h: "\<not> HasPrefix address ''mayor'' \<and> CHR ''/'' \<notin> set address"
  then have "SplitN address CHR ''/'' 2 = [address]"
    by (simp add: SplitN_2_no_sep)
  with h show "addressToSessionID address = ''''"
    by (simp add: addressToSessionID_def)
next
  assume h: "\<not> HasPrefix (rig @ ''/'') ''mayor'' \<and> CHR ''/'' \<notin> set rig"
  then have "SplitN (rig @ ''/'') CHR ''/'' 2 = [rig, '''']"
    using SplitN_2_sep [of "CHR ''/''" rig "''''"] by simp
  with h show "addressToSessionID (rig @ ''/'') = ''''"
    by (simp add: addressToSessionID_def)
qed

theorem addressToSessionID_cases_witness:
  "addressToSessionID ''mayor/'' = ''gt-mayor''
   \<and> addressToSessionID ''mayor'' = ''gt-mayor''
   \<and> addressToSessionID ''gastown/Toast'' = ''gt-gastown-Toast''
   \<and> addressToSessionID ''rig'' = ''''
   \<and> addressToSessionID ''rig/'' = ''''"
  using addressToSessionID_cases [of "''mayor/''" "''gastown''" "''Toast''"]
    addressToSessionID_cases [of "''mayor''" "''rig''" "''''"]
    addressToSessionID_cases [of "''rig''" "''rig''" "''''"]
  by (simp add: HasPrefix_def)

section \<open>Facts about the router\<close>

lemma notifyRecipient_calls: "\<forall>e\<in>set (snd (notifyRecipient r msg)). live_session_call e"
  by (auto simp: notifyRecipient_def Let_def split: sum.splits)

lemma interruptRecipient_calls: "\<forall>e\<in>set (snd (interruptRecipient r msg)). live_session_call e"
  by (auto simp: interruptRecipient_def Let_def split: sum.splits)

lemma Send_fails:
  "persist_error lib w r msg \<noteq> None \<Longrightarrow>
     fst (Send lib w r msg) \<noteq> None \<and> snd (Send lib w r msg) = [persist_run lib r msg]"
  by (auto simp: Send_def persist_error_def persist_run_def Let_def
           split: prod.splits option.splits)

lemma Send_succeeds:
  "persist_error lib w r msg = None \<Longrightarrow>
     fst (Send lib w r msg) = None \<and>
     snd (Send lib w r msg) = persist_run lib r msg #
       snd (if Delivery msg = DeliveryInterrupt then interruptRecipient r msg
            else notifyRecipient r msg)"
  by (auto simp: Send_def persist_error_def persist_run_def Let_def
           split: prod.splits option.splits)

lemma notifyRecipient_trace:
  "snd (notifyRecipient r msg) =
     (if addressToSessionID (To msg) = '''' then []
      else if HasSession (tmux r) (addressToSessionID (To msg)) = Inr True
      then [TmuxHasSession (addressToSessionID (To msg)),
            TmuxDisplayMessageDefault (addressToSessionID (To msg)) (notification msg)]
      else [TmuxHasSession (addressToSessionID (To msg))])"
  by (auto simp: notifyRecipient_def Let_def split: sum.splits)

lemma interruptRecipient_trace:
  "snd (interruptRecipient r msg) =
     (if addressToSessionID (To msg) = '''' then []
      else if HasSession (tmux r) (addressToSessionID (To msg)) = Inr True
      then [TmuxHasSession (addressToSessionID (To msg)),
            TmuxSendKeysRaw (addressToSessionID (To msg)) (reminder msg)]
      else [TmuxHasSession (addressToSessionID (To msg))])"
  by (auto simp: interruptRecipient_def Let_def split: sum.splits)

lemma recipient_skipped_no_error:
  "addressToSessionID (To msg) = '''' \<or> HasSession (tmux r) (addressToSessionID (To msg)) \<noteq> Inr True
   \<Longrightarrow> notifyRecipient r msg = (None, snd (notifyRecipient r msg))
       \<and> interruptRecipient r msg = (None, snd (interruptRecipient r msg))"
  by (auto simp: notifyRecipient_def interruptRecipient_def Let_def split: sum.splits)

lemma notification_line:
  "CHR ''\<newline>'' \<notin> set (From msg) \<Longrightarrow> CHR ''\<newline>'' \<notin> set (Subject msg)
   \<Longrightarrow> CHR ''\<newline>'' \<notin> set (notification msg)"
  by (simp add: notification_def)

lemma reminder_text:
  "reminder msg =
     ''\<newline><system-reminder>\<newline>'' @ mail_glyph @ '' NEW MAIL''
     @ (if Priority msg = PriorityUrgent then '' [URGENT]''
        else if Priority msg = PriorityHigh then '' [HIGH PRIORITY]'' else '''')
     @ '' from '' @ From msg @ ''\<newline>Subject: '' @ Subject msg @ ''\<newline>''
     @ (if Body msg = '''' then '''' else ''\<newline>'' @ Body msg @ ''\<newline>'')
     @ ''\<newline>Run '' @ [CHR 0x27] @ ''gt mail inbox'' @ [CHR 0x27]
     @ '' to see your messages.\<newline></system-reminder>\<newline>''"
  by (simp add: reminder_def priorityStr_def)

lemma example_session: "addressToSessionID ''gastown/Toast'' = ''gt-gastown-Toast''"
  by (simp add: addressToSessionID_def HasPrefix_def numeral_2_eq_2)

section \<open>Sending: persistence first, the live session second\<close>

text \<open>
  Claim C1.  \<^verbatim>\<open>Send\<close> returns an error exactly when the run that persists the
  message fails.  The persisting run is the first call \<^verbatim>\<open>Send\<close> makes; every later
  call is a call to the live session, and there is none when persistence fails.
  Whatever the calls to the live session return, presence check and writing calls
  alike, \<^verbatim>\<open>Send\<close> returns \<^verbatim>\<open>nil\<close> once the message is persisted.
\<close>

theorem Send_error_iff_persistence_fails:
  "(fst (Send lib w r msg) \<noteq> None) = (persist_error lib w r msg \<noteq> None)
   \<and> (\<exists>calls. snd (Send lib w r msg) = persist_run lib r msg # calls
          \<and> (\<forall>e\<in>set calls. live_session_call e)
          \<and> (persist_error lib w r msg \<noteq> None \<longrightarrow> calls = []))"
proof (cases "persist_error lib w r msg")
  case None
  from Send_succeeds [OF None] show ?thesis
    using None notifyRecipient_calls [of r msg] interruptRecipient_calls [of r msg]
    by (simp split: if_splits)
next
  case (Some e)
  then have "persist_error lib w r msg \<noteq> None" by simp
  from Send_fails [OF this] show ?thesis
    using Some by simp
qed

theorem Send_error_iff_persistence_fails_witness:
  "fst (Send example_lib
      (example_world (Some ''exit status 1'', ''no such recipient'') (example_tmux (Inr True)) (Inl ''x''))
      \<lparr>workDir = ''/town'', tmux = example_tmux (Inr True)\<rparr> example_msg) \<noteq> None
   \<and> snd (Send example_lib
      (example_world (Some ''exit status 1'', ''no such recipient'') (example_tmux (Inr True)) (Inl ''x''))
      \<lparr>workDir = ''/town'', tmux = example_tmux (Inr True)\<rparr> example_msg)
      = [persist_run example_lib \<lparr>workDir = ''/town'', tmux = example_tmux (Inr True)\<rparr> example_msg]
   \<and> fst (Send example_lib
      (example_world (None, '''') (example_tmux (Inr True)) (Inl ''x''))
      \<lparr>workDir = ''/town'', tmux = example_tmux (Inr True)\<rparr> example_msg) = None
   \<and> fst (Send example_lib
      (example_world (None, '''') (example_tmux (Inr True)) (Inl ''x''))
      \<lparr>workDir = ''/town'', tmux = example_tmux (Inl ''no server running'')\<rparr> example_msg) = None"
proof -
  have f: "persist_error example_lib
      (example_world (Some ''exit status 1'', ''no such recipient'') (example_tmux (Inr True)) (Inl ''x''))
      \<lparr>workDir = ''/town'', tmux = example_tmux (Inr True)\<rparr> example_msg \<noteq> None"
    by (simp add: persist_error_def example_world_def)
  have g: "persist_error example_lib
      (example_world (None, '''') (example_tmux (Inr True)) (Inl ''x'')) r example_msg = None" for r
    by (simp add: persist_error_def example_world_def)
  from f g Send_error_iff_persistence_fails [of example_lib
      "example_world (Some ''exit status 1'', ''no such recipient'') (example_tmux (Inr True)) (Inl ''x'')"
      "\<lparr>workDir = ''/town'', tmux = example_tmux (Inr True)\<rparr>" example_msg]
    Send_error_iff_persistence_fails [of example_lib
      "example_world (None, '''') (example_tmux (Inr True)) (Inl ''x'')"
      "\<lparr>workDir = ''/town'', tmux = example_tmux (Inr True)\<rparr>" example_msg]
    Send_error_iff_persistence_fails [of example_lib
      "example_world (None, '''') (example_tmux (Inr True)) (Inl ''x'')"
      "\<lparr>workDir = ''/town'', tmux = example_tmux (Inl ''no server running'')\<rparr>" example_msg]
  show ?thesis by auto
qed

text \<open>
  Claim C6.  For a message the store has persisted, \<^verbatim>\<open>Send\<close> reports success and
  makes these calls after the persisting run.  When the delivery is not interrupt
  (queue, the default): none when the session identity of the recipient is empty;
  the presence check alone when no session is active or the check fails; otherwise
  the presence check and one status-line message with the text
  \<^verbatim>\<open>[MAIL] From <sender>: <subject>\<close>, which holds no line break unless the sender
  or the subject does.  When the delivery is interrupt: the same two skips, and
  otherwise the presence check and one raw injection (no key press follows it) of
  the reminder block: several lines with the sender, the subject, the body when it
  is not empty, and the annotation \<^verbatim>\<open> [URGENT]\<close> or \<^verbatim>\<open> [HIGH PRIORITY]\<close> exactly for
  the priorities urgent and high.
\<close>

theorem Send_side_effect_by_delivery:
  assumes "persist_error lib w r msg = None"
  shows "fst (Send lib w r msg) = None
   \<and> (Delivery msg \<noteq> DeliveryInterrupt \<longrightarrow>
        snd (Send lib w r msg) = persist_run lib r msg #
          (if addressToSessionID (To msg) = '''' then []
           else if HasSession (tmux r) (addressToSessionID (To msg)) = Inr True
           then [TmuxHasSession (addressToSessionID (To msg)),
                 TmuxDisplayMessageDefault (addressToSessionID (To msg)) (notification msg)]
           else [TmuxHasSession (addressToSessionID (To msg))]))
   \<and> (Delivery msg = DeliveryInterrupt \<longrightarrow>
        snd (Send lib w r msg) = persist_run lib r msg #
          (if addressToSessionID (To msg) = '''' then []
           else if HasSession (tmux r) (addressToSessionID (To msg)) = Inr True
           then [TmuxHasSession (addressToSessionID (To msg)),
                 TmuxSendKeysRaw (addressToSessionID (To msg)) (reminder msg)]
           else [TmuxHasSession (addressToSessionID (To msg))]))
   \<and> (addressToSessionID (To msg) = '''' \<or> HasSession (tmux r) (addressToSessionID (To msg)) \<noteq> Inr True
        \<longrightarrow> fst (notifyRecipient r msg) = None \<and> fst (interruptRecipient r msg) = None)
   \<and> notification msg = ''[MAIL] From '' @ From msg @ '': '' @ Subject msg
   \<and> (CHR ''\<newline>'' \<notin> set (From msg) \<and> CHR ''\<newline>'' \<notin> set (Subject msg)
        \<longrightarrow> CHR ''\<newline>'' \<notin> set (notification msg))
   \<and> reminder msg =
        ''\<newline><system-reminder>\<newline>'' @ mail_glyph @ '' NEW MAIL''
        @ (if Priority msg = PriorityUrgent then '' [URGENT]''
           else if Priority msg = PriorityHigh then '' [HIGH PRIORITY]'' else '''')
        @ '' from '' @ From msg @ ''\<newline>Subject: '' @ Subject msg @ ''\<newline>''
        @ (if Body msg = '''' then '''' else ''\<newline>'' @ Body msg @ ''\<newline>'')
        @ ''\<newline>Run '' @ [CHR 0x27] @ ''gt mail inbox'' @ [CHR 0x27]
        @ '' to see your messages.\<newline></system-reminder>\<newline>''"
proof -
  note s = Send_succeeds [OF assms]
  have a: "fst (Send lib w r msg) = None"
    using s by simp
  have b: "Delivery msg \<noteq> DeliveryInterrupt \<longrightarrow>
        snd (Send lib w r msg) = persist_run lib r msg #
          (if addressToSessionID (To msg) = '''' then []
           else if HasSession (tmux r) (addressToSessionID (To msg)) = Inr True
           then [TmuxHasSession (addressToSessionID (To msg)),
                 TmuxDisplayMessageDefault (addressToSessionID (To msg)) (notification msg)]
           else [TmuxHasSession (addressToSessionID (To msg))])"
    using s notifyRecipient_trace [of r msg] by simp
  have c: "Delivery msg = DeliveryInterrupt \<longrightarrow>
        snd (Send lib w r msg) = persist_run lib r msg #
          (if addressToSessionID (To msg) = '''' then []
           else if HasSession (tmux r) (addressToSessionID (To msg)) = Inr True
           then [TmuxHasSession (addressToSessionID (To msg)),
                 TmuxSendKeysRaw (addressToSessionID (To msg)) (reminder msg)]
           else [TmuxHasSession (addressToSessionID (To msg))])"
    using s interruptRecipient_trace [of r msg] by simp
  have d: "addressToSessionID (To msg) = '''' \<or> HasSession (tmux r) (addressToSessionID (To msg)) \<noteq> Inr True
        \<longrightarrow> fst (notifyRecipient r msg) = None \<and> fst (interruptRecipient r msg) = None"
    using recipient_skipped_no_error [of msg r] by (metis fst_conv)
  have e: "notification msg = ''[MAIL] From '' @ From msg @ '': '' @ Subject msg"
    by (simp add: notification_def)
  have f: "CHR ''\<newline>'' \<notin> set (From msg) \<and> CHR ''\<newline>'' \<notin> set (Subject msg)
        \<longrightarrow> CHR ''\<newline>'' \<notin> set (notification msg)"
    using notification_line [of msg] by blast
  from a b c d e f reminder_text [of msg] show ?thesis
    by blast
qed

theorem Send_side_effect_by_delivery_witness:
  "persist_error example_lib
      (example_world (None, '''') (example_tmux (Inr True)) (Inl ''x''))
      \<lparr>workDir = ''/town'', tmux = example_tmux (Inr True)\<rparr> example_msg = None
   \<and> snd (Send example_lib
      (example_world (None, '''') (example_tmux (Inr True)) (Inl ''x''))
      \<lparr>workDir = ''/town'', tmux = example_tmux (Inr True)\<rparr> example_msg)
      = [persist_run example_lib \<lparr>workDir = ''/town'', tmux = example_tmux (Inr True)\<rparr> example_msg,
         TmuxHasSession ''gt-gastown-Toast'',
         TmuxDisplayMessageDefault ''gt-gastown-Toast'' ''[MAIL] From mayor/: S'']
   \<and> snd (Send example_lib
      (example_world (None, '''') (example_tmux (Inr True)) (Inl ''x''))
      \<lparr>workDir = ''/town'', tmux = example_tmux (Inr False)\<rparr>
      (example_msg\<lparr>Delivery := DeliveryInterrupt\<rparr>))
      = [persist_run example_lib \<lparr>workDir = ''/town'', tmux = example_tmux (Inr False)\<rparr>
           (example_msg\<lparr>Delivery := DeliveryInterrupt\<rparr>),
         TmuxHasSession ''gt-gastown-Toast'']"
proof -
  have p: "persist_error example_lib
      (example_world (None, '''') (example_tmux (Inr True)) (Inl ''x''))
      \<lparr>workDir = ''/town'', tmux = example_tmux (Inr True)\<rparr> example_msg = None"
    by (simp add: persist_error_def example_world_def)
  have q: "persist_error example_lib
      (example_world (None, '''') (example_tmux (Inr True)) (Inl ''x''))
      \<lparr>workDir = ''/town'', tmux = example_tmux (Inr False)\<rparr>
      (example_msg\<lparr>Delivery := DeliveryInterrupt\<rparr>) = None"
    by (simp add: persist_error_def example_world_def)
  have t: "To example_msg = ''gastown/Toast''" "Delivery example_msg \<noteq> DeliveryInterrupt"
    "From example_msg = ''mayor/''" "Subject example_msg = ''S''"
    by (simp_all add: example_msg_def DeliveryQueue_def DeliveryInterrupt_def)
  from Send_side_effect_by_delivery [OF p] Send_side_effect_by_delivery [OF q] p
  show ?thesis
    by (simp add: t example_session example_tmux_def)
qed

section \<open>Facts about the message a send builds\<close>

lemma Send_first_call: "\<exists>calls. snd (Send lib w r msg) = persist_run lib r msg # calls"
  using Send_fails [of lib w r msg] Send_succeeds [of lib w r msg] by blast

lemma Send_error: "(fst (Send lib w r msg) = None) = (persist_error lib w r msg = None)"
  using Send_fails [of lib w r msg] Send_succeeds [of lib w r msg] by blast

lemma runMailSend_msg_Priority:
  "Priority (runMailSend_msg lib w fl dir to) =
     (if mailNotify fl \<and> ParsePriority lib (mailPriority fl) = PriorityNormal then PriorityHigh
      else ParsePriority lib (mailPriority fl))"
  by (auto simp: runMailSend_msg_def Let_def GetMailbox_def split: sum.splits)

lemma runMailSend_msg_Type:
  "Type (runMailSend_msg lib w fl dir to) =
     (if mailReplyTo fl \<noteq> '''' \<and> ParseMessageType lib (mailType fl) = TypeNotification
      then TypeReply else ParseMessageType lib (mailType fl))"
  by (auto simp: runMailSend_msg_def Let_def GetMailbox_def split: sum.splits)

lemma runMailSend_msg_ThreadID:
  "ThreadID (runMailSend_msg lib w fl dir to) =
     (if mailReplyTo fl = '''' then generateThreadID w
      else (case Mailbox_Get w (fst (GetMailbox lib (NewRouter w dir) (detectSender w)))
                   (mailReplyTo fl) of
              Inl e \<Rightarrow> generateThreadID w
            | Inr original \<Rightarrow>
                if ThreadID original = '''' then generateThreadID w else ThreadID original))"
  by (auto simp: runMailSend_msg_def Let_def GetMailbox_def NewRouter_def split: sum.splits)

lemma runMailSend_error:
  "fst (runMailSend lib w fl to) =
     (case findBeadsWorkDir w of
        Inl e \<Rightarrow> Some (''not in a Gas Town workspace: '' @ e)
      | Inr dir \<Rightarrow>
          (case fst (Send lib w (NewRouter w dir) (runMailSend_msg lib w fl dir to)) of
             None \<Rightarrow> None
           | Some e \<Rightarrow> Some (''sending message: '' @ e)))"
  by (simp add: runMailSend_def Let_def split: sum.splits prod.splits option.splits)

lemma runMailSend_calls:
  "findBeadsWorkDir w = Inr dir \<Longrightarrow>
     snd (runMailSend lib w fl to)
       = snd (Send lib w (NewRouter w dir) (runMailSend_msg lib w fl dir to))"
  by (simp add: runMailSend_def Let_def split: sum.splits prod.splits option.splits)

lemma generateThreadID_nonempty: "generateThreadID w \<noteq> ''''"
  by (simp add: generateThreadID_def Let_def)

lemma example_thread: "generateThreadID (example_world run t got) = ''thread-0a1a2a3a4a5a''"
  by (simp add: generateThreadID_def example_world_def upt_rec hextable_def
      drop_bit_eq_div)

lemma example_world_simps:
  "findBeadsWorkDir (example_world run t got) = Inr ''/town''"
  "detectSender (example_world run t got) = ''gastown/Toast''"
  "exec_bd (example_world run t got) = (\<lambda>args env dir. run)"
  "NewTmux (example_world run t got) = t"
  "Mailbox_Get (example_world run t got) = (\<lambda>mailbox id. got)"
  by (simp_all add: example_world_def)

lemma example_flags_simps:
  "mailReplyTo example_flags = ''msg-abc123''"
  "mailType example_flags = ''notification''"
  "mailPriority example_flags = ''normal''"
  "mailNotify example_flags = False"
  by (simp_all add: example_flags_def init_flags_def)

section \<open>Priority, type and thread of a sent message\<close>

text \<open>
  Claim C10.  With the notify flag set and a parsed priority of normal, the message
  carries the priority high; with a parsed priority other than normal the message
  carries the parsed priority, whatever the notify flag.  This is the message the
  command hands to the router: its persisting run is the first call of the command.
\<close>

theorem notify_upgrades_normal_priority:
  "(mailNotify fl \<and> ParsePriority lib (mailPriority fl) = PriorityNormal
      \<longrightarrow> Priority (runMailSend_msg lib w fl dir to) = PriorityHigh)
   \<and> (ParsePriority lib (mailPriority fl) \<noteq> PriorityNormal
      \<longrightarrow> Priority (runMailSend_msg lib w fl dir to) = ParsePriority lib (mailPriority fl))
   \<and> (findBeadsWorkDir w = Inr dir
      \<longrightarrow> (\<exists>calls. snd (runMailSend lib w fl to)
             = persist_run lib (NewRouter w dir) (runMailSend_msg lib w fl dir to) # calls))"
  using Send_first_call [of lib w "NewRouter w dir" "runMailSend_msg lib w fl dir to"]
  by (simp add: runMailSend_msg_Priority runMailSend_calls)

theorem notify_upgrades_normal_priority_witness:
  "Priority (runMailSend_msg example_lib
       (example_world (None, '''') (example_tmux (Inr True)) (Inl ''not found''))
       (example_flags\<lparr>mailNotify := True\<rparr>) ''/town'' ''mayor/'') = PriorityHigh
   \<and> Priority (runMailSend_msg example_lib
       (example_world (None, '''') (example_tmux (Inr True)) (Inl ''not found''))
       (example_flags\<lparr>mailNotify := True, mailPriority := ''urgent''\<rparr>) ''/town'' ''mayor/'')
     = PriorityUrgent"
  using notify_upgrades_normal_priority [where fl = "example_flags\<lparr>mailNotify := True\<rparr>"
      and lib = example_lib and dir = "''/town''" and to = "''mayor/''"
      and w = "example_world (None, '''') (example_tmux (Inr True)) (Inl ''not found'')"]
    notify_upgrades_normal_priority
      [where fl = "example_flags\<lparr>mailNotify := True, mailPriority := ''urgent''\<rparr>"
      and lib = example_lib and dir = "''/town''" and to = "''mayor/''"
      and w = "example_world (None, '''') (example_tmux (Inr True)) (Inl ''not found'')"]
  by (simp add: example_lib_def example_flags_simps PriorityNormal_def PriorityUrgent_def
      PriorityHigh_def PriorityLow_def)

text \<open>
  Claim C3, as the code has it.  With a reply-to id, a parsed type of notification
  becomes reply, whether the type flag was left out or given as
  \<^verbatim>\<open>notification\<close>: the command sees the same text in both cases.  A parsed type
  other than notification is kept.
\<close>

theorem reply_to_upgrades_notification:
  assumes "flag_reply_to c = Some rid" and "rid \<noteq> ''''"
  shows "(flag_type c = None \<and> ParseMessageType lib ''notification'' = TypeNotification
            \<longrightarrow> Type (runMailSend_msg lib w (init_flags c) dir to) = TypeReply)
       \<and> (flag_type c = Some t \<and> ParseMessageType lib t = TypeNotification
            \<longrightarrow> Type (runMailSend_msg lib w (init_flags c) dir to) = TypeReply)
       \<and> (flag_type c = Some t \<and> ParseMessageType lib t \<noteq> TypeNotification
            \<longrightarrow> Type (runMailSend_msg lib w (init_flags c) dir to) = ParseMessageType lib t)"
  using assms by (simp add: runMailSend_msg_Type init_flags_def)

theorem reply_to_upgrades_notification_witness:
  "Type (runMailSend_msg example_lib
       (example_world (None, '''') (example_tmux (Inr True)) (Inl ''not found''))
       (init_flags \<lparr>flag_subject = ''Re: Status'', flag_message = None, flag_priority = None,
          flag_type = Some ''task'', flag_reply_to = Some ''msg-abc123'', flag_notify = None,
          flag_interrupt = None\<rparr>) ''/town'' ''mayor/'') = TypeTask
   \<and> Type (runMailSend_msg example_lib
       (example_world (None, '''') (example_tmux (Inr True)) (Inl ''not found''))
       (init_flags \<lparr>flag_subject = ''Re: Status'', flag_message = None, flag_priority = None,
          flag_type = None, flag_reply_to = Some ''msg-abc123'', flag_notify = None,
          flag_interrupt = None\<rparr>) ''/town'' ''mayor/'') = TypeReply"
  using reply_to_upgrades_notification [where c = "\<lparr>flag_subject = ''Re: Status'',
          flag_message = None, flag_priority = None, flag_type = Some ''task'',
          flag_reply_to = Some ''msg-abc123'', flag_notify = None, flag_interrupt = None\<rparr>"
       and rid = "''msg-abc123''" and t = "''task''" and lib = example_lib
       and dir = "''/town''" and to = "''mayor/''"
       and w = "example_world (None, '''') (example_tmux (Inr True)) (Inl ''not found'')"]
    reply_to_upgrades_notification [where c = "\<lparr>flag_subject = ''Re: Status'',
          flag_message = None, flag_priority = None, flag_type = None,
          flag_reply_to = Some ''msg-abc123'', flag_notify = None, flag_interrupt = None\<rparr>"
       and rid = "''msg-abc123''" and t = "''task''" and lib = example_lib
       and dir = "''/town''" and to = "''mayor/''"
       and w = "example_world (None, '''') (example_tmux (Inr True)) (Inl ''not found'')"]
  by (simp add: example_lib_def TypeTask_def TypeNotification_def TypeReply_def TypeScavenge_def)

text \<open>
  The claim as written fails for a type given explicitly as \<^verbatim>\<open>notification\<close>: with
  a reply-to id the message goes out with the type reply, not with the type given.
\<close>

theorem explicit_notification_counterexample:
  "ParseMessageType example_lib ''notification'' = TypeNotification
   \<and> Type (runMailSend_msg example_lib
       (example_world (None, '''') (example_tmux (Inr True)) (Inl ''not found''))
       (init_flags \<lparr>flag_subject = ''Re: Status'', flag_message = None, flag_priority = None,
          flag_type = Some ''notification'', flag_reply_to = Some ''msg-abc123'',
          flag_notify = None, flag_interrupt = None\<rparr>) ''/town'' ''mayor/'') = TypeReply
   \<and> TypeReply \<noteq> TypeNotification"
  by (simp add: runMailSend_msg_Type init_flags_def example_lib_def TypeTask_def
      TypeNotification_def TypeReply_def TypeScavenge_def)

text \<open>
  Claim C2, as the code has it.  For a send with a reply-to id: when the sender's
  own mailbox returns the original message and its thread id is not empty, the
  message carries that thread id; when the lookup fails, and also when the original
  carries an empty thread id, the message carries a generated thread id, which is
  never empty.  The lookup has no part in the error of the command, which fails
  exactly when no work directory is found or the persisting run fails.
\<close>

theorem reply_inherits_thread:
  assumes "mailReplyTo fl \<noteq> ''''"
  shows "(Mailbox_Get w (fst (GetMailbox lib (NewRouter w dir) (detectSender w))) (mailReplyTo fl)
            = Inr original \<and> ThreadID original \<noteq> ''''
          \<longrightarrow> ThreadID (runMailSend_msg lib w fl dir to) = ThreadID original)
       \<and> (Mailbox_Get w (fst (GetMailbox lib (NewRouter w dir) (detectSender w))) (mailReplyTo fl)
            = Inr original \<and> ThreadID original = ''''
          \<longrightarrow> ThreadID (runMailSend_msg lib w fl dir to) = generateThreadID w)
       \<and> (Mailbox_Get w (fst (GetMailbox lib (NewRouter w dir) (detectSender w))) (mailReplyTo fl)
            = Inl e
          \<longrightarrow> ThreadID (runMailSend_msg lib w fl dir to) = generateThreadID w)
       \<and> generateThreadID w \<noteq> ''''
       \<and> (findBeadsWorkDir w = Inr dir \<longrightarrow>
            (fst (runMailSend lib w fl to) = None)
              = (persist_error lib w (NewRouter w dir) (runMailSend_msg lib w fl dir to) = None))"
proof -
  have a: "findBeadsWorkDir w = Inr dir \<longrightarrow>
            (fst (runMailSend lib w fl to) = None)
              = (persist_error lib w (NewRouter w dir) (runMailSend_msg lib w fl dir to) = None)"
    using Send_error [of lib w "NewRouter w dir" "runMailSend_msg lib w fl dir to"]
    by (auto simp: runMailSend_error split: option.splits)
  from assms a show ?thesis
    by (simp add: runMailSend_msg_ThreadID generateThreadID_nonempty)
qed

theorem reply_inherits_thread_witness:
  "ThreadID (runMailSend_msg example_lib
       (example_world (None, '''') (example_tmux (Inr True)) (Inr example_msg))
       example_flags ''/town'' ''mayor/'') = ''thread-abc123''
   \<and> ThreadID (runMailSend_msg example_lib
       (example_world (None, '''') (example_tmux (Inr True)) (Inl ''not found''))
       example_flags ''/town'' ''mayor/'') = ''thread-0a1a2a3a4a5a''
   \<and> fst (runMailSend example_lib
       (example_world (None, '''') (example_tmux (Inr True)) (Inl ''not found''))
       example_flags ''mayor/'') = None"
  using reply_inherits_thread [where fl = example_flags and lib = example_lib
       and w = "example_world (None, '''') (example_tmux (Inr True)) (Inr example_msg)"
       and dir = "''/town''" and to = "''mayor/''" and original = example_msg
       and e = "''not found''"]
    reply_inherits_thread [where fl = example_flags and lib = example_lib
       and w = "example_world (None, '''') (example_tmux (Inr True)) (Inl ''not found'')"
       and dir = "''/town''" and to = "''mayor/''" and original = example_msg
       and e = "''not found''"]
  by (simp add: example_flags_simps example_thread example_world_simps persist_error_def
      example_msg_def)

text \<open>
  The claim as written fails for an original message without a thread id: the
  mailbox returns it, and the reply goes out with a generated thread id instead of
  the empty one of the original.
\<close>

theorem reply_to_threadless_counterexample:
  "Mailbox_Get (example_world (None, '''') (example_tmux (Inr True))
                  (Inr (example_msg\<lparr>ThreadID := ''''\<rparr>)))
       (fst (GetMailbox example_lib
               (NewRouter (example_world (None, '''') (example_tmux (Inr True))
                             (Inr (example_msg\<lparr>ThreadID := ''''\<rparr>))) ''/town'')
               (detectSender (example_world (None, '''') (example_tmux (Inr True))
                             (Inr (example_msg\<lparr>ThreadID := ''''\<rparr>))))))
       (mailReplyTo example_flags)
     = Inr (example_msg\<lparr>ThreadID := ''''\<rparr>)
   \<and> ThreadID (runMailSend_msg example_lib
        (example_world (None, '''') (example_tmux (Inr True))
           (Inr (example_msg\<lparr>ThreadID := ''''\<rparr>)))
        example_flags ''/town'' ''mayor/'')
     \<noteq> ThreadID (example_msg\<lparr>ThreadID := ''''\<rparr>)"
  by (simp add: runMailSend_msg_ThreadID example_flags_simps example_thread
      example_world_simps)

section \<open>Facts about the hexadecimal encoding\<close>

lemma hi_lt: "unat (drop_bit 4 (v :: 8 word)) < 16"
proof -
  have "unat v < 256" using unsigned_less [of v] by simp
  then show ?thesis by (simp add: drop_bit_eq_div unat_div)
qed

lemma lo_lt: "unat ((v :: 8 word) AND 0x0f) < 16"
proof -
  have "v AND 0x0f \<le> 0x0f" by (rule word_and_le1)
  then have "unat (v AND 0x0f) \<le> unat (0x0f :: 8 word)" by (simp add: word_le_nat_alt)
  then show ?thesis by simp
qed

lemma bit_15: "bit (0x0f :: 8 word) n = (n < 4)"
proof -
  have e: "(0x0f :: 8 word) = mask 4" by (simp add: mask_eq_exp_minus_1)
  show ?thesis by (subst e) (auto simp add: bit_mask_iff)
qed

lemma nibbles_inj:
  assumes "drop_bit 4 (v :: 8 word) = drop_bit 4 v'" and "v AND 0x0f = v' AND 0x0f"
  shows "v = v'"
proof (rule bit_eqI)
  fix n
  show "bit v n = bit v' n"
  proof (cases "n < 4")
    case True
    have "bit (v AND 0x0f) n = bit (v' AND 0x0f) n" using assms(2) by simp
    moreover from True have "bit (0x0f :: 8 word) n" by (simp only: bit_15)
    ultimately show ?thesis by (simp only: bit_and_iff) blast
  next
    case False
    have "bit (drop_bit 4 v) (n - 4) = bit (drop_bit 4 v') (n - 4)" using assms(1) by simp
    with False show ?thesis by (simp add: bit_drop_bit_eq)
  qed
qed

lemma hextable_nth_inj:
  "i < 16 \<Longrightarrow> j < 16 \<Longrightarrow> hextable ! i = hextable ! j \<Longrightarrow> i = j"
proof -
  have "distinct hextable" by (simp add: hextable_def)
  moreover have "length hextable = 16" by (simp add: hextable_def)
  ultimately show "i < 16 \<Longrightarrow> j < 16 \<Longrightarrow> hextable ! i = hextable ! j \<Longrightarrow> i = j"
    by (simp add: nth_eq_iff_index_eq)
qed

lemma hextable_nth_mem: "i < 16 \<Longrightarrow> hextable ! i \<in> set hextable"
  by (rule nth_mem) (simp add: hextable_def)

lemma EncodeToString_length: "length (EncodeToString bs) = 2 * length bs"
  by (induction bs) simp_all

lemma EncodeToString_set: "set (EncodeToString bs) \<subseteq> set hextable"
  by (induction bs) (simp_all add: hextable_nth_mem hi_lt lo_lt)

lemma EncodeToString_inj:
  "length xs = length ys \<Longrightarrow> EncodeToString xs = EncodeToString ys \<Longrightarrow> xs = ys"
proof (induction xs ys rule: list_induct2)
  case Nil
  then show ?case by simp
next
  case (Cons x xs y ys)
  from Cons.prems have h: "hextable ! unat (drop_bit 4 x) = hextable ! unat (drop_bit 4 y)"
    and l: "hextable ! unat (x AND 0x0f) = hextable ! unat (y AND 0x0f)"
    and r: "EncodeToString xs = EncodeToString ys"
    by simp_all
  from h have "unat (drop_bit 4 x) = unat (drop_bit 4 y)"
    by (rule hextable_nth_inj [OF hi_lt hi_lt])
  then have hi: "drop_bit 4 x = drop_bit 4 y"
    by (rule word_unat_eq_iff [THEN iffD2])
  from l have "unat (x AND 0x0f) = unat (y AND 0x0f)"
    by (rule hextable_nth_inj [OF lo_lt lo_lt])
  then have lo: "x AND 0x0f = y AND 0x0f"
    by (rule word_unat_eq_iff [THEN iffD2])
  from hi lo have "x = y"
    by (rule nibbles_inj)
  with Cons.IH [OF r] show ?case by simp
qed

section \<open>Generated thread ids\<close>

text \<open>
  Claim C8.  A generated thread id is the text \<^verbatim>\<open>thread-\<close> followed by the
  hexadecimal encoding of six random bytes: exactly twelve characters, each one of
  \<^verbatim>\<open>0123456789abcdef\<close>.  It is never empty.  Two generated ids are equal exactly
  when their six random bytes are equal, so two independent ids collide only when
  48 random bits collide.
\<close>

theorem generateThreadID_format:
  "take 7 (generateThreadID w) = ''thread-''
   \<and> drop 7 (generateThreadID w) = EncodeToString (map (rand_Read w) [0..<6])
   \<and> length (drop 7 (generateThreadID w)) = 12
   \<and> set (drop 7 (generateThreadID w)) \<subseteq> set ''0123456789abcdef''
   \<and> generateThreadID w \<noteq> ''''
   \<and> (generateThreadID w = generateThreadID w')
       = (map (rand_Read w) [0..<6] = map (rand_Read w') [0..<6])"
proof -
  have d: "drop 7 (generateThreadID w) = EncodeToString (map (rand_Read w) [0..<6])"
    by (simp add: generateThreadID_def Let_def)
  have t: "take 7 (generateThreadID w) = ''thread-''"
    by (simp add: generateThreadID_def Let_def)
  have l: "length (drop 7 (generateThreadID w)) = 12"
    by (simp only: d EncodeToString_length) simp
  have s: "set (drop 7 (generateThreadID w)) \<subseteq> set ''0123456789abcdef''"
    using EncodeToString_set [of "map (rand_Read w) [0..<6]"]
    by (simp only: d hextable_def)
  have i: "(generateThreadID w = generateThreadID w')
       = (map (rand_Read w) [0..<6] = map (rand_Read w') [0..<6])"
  proof
    assume "generateThreadID w = generateThreadID w'"
    then have "EncodeToString (map (rand_Read w) [0..<6])
        = EncodeToString (map (rand_Read w') [0..<6])"
      by (simp add: generateThreadID_def Let_def)
    then show "map (rand_Read w) [0..<6] = map (rand_Read w') [0..<6]"
      by (intro EncodeToString_inj) simp_all
  next
    assume e: "map (rand_Read w) [0..<6] = map (rand_Read w') [0..<6]"
    show "generateThreadID w = generateThreadID w'"
      by (simp only: generateThreadID_def Let_def e)
  qed
  from t d l s i generateThreadID_nonempty [of w] show ?thesis
    by blast
qed

theorem generateThreadID_format_witness:
  "generateThreadID (example_world (None, '''') (example_tmux (Inr True)) (Inl ''not found''))
     = ''thread-0a1a2a3a4a5a''
   \<and> length (drop 7 (generateThreadID
        (example_world (None, '''') (example_tmux (Inr True)) (Inl ''not found'')))) = 12"
  using generateThreadID_format
    [where w = "example_world (None, '''') (example_tmux (Inr True)) (Inl ''not found'')"
       and w' = "example_world (None, '''') (example_tmux (Inr True)) (Inl ''not found'')"]
  by (simp add: example_thread EncodeToString_length)

section \<open>Mailboxes\<close>

text \<open>
  Claim C9.  \<^verbatim>\<open>GetMailbox\<close> returns the mailbox of the address together with a
  \<^verbatim>\<open>nil\<close> error, for every address: turning an address into a durable identity
  cannot fail in the code, so there is no address for which \<^verbatim>\<open>GetMailbox\<close> fails.
\<close>

theorem GetMailbox_never_fails:
  "snd (GetMailbox lib r address) = None
   \<and> fst (GetMailbox lib r address) = NewMailboxFromAddress lib address (workDir r)"
  by (simp add: GetMailbox_def)

section \<open>Known sessions\<close>

lemma matchPrefix_iff:
  "matchPrefix ps name = (\<exists>p\<in>fst ` set ps. HasPrefix name (p @ ''-''))"
  by (induction ps name rule: matchPrefix.induct) auto

lemma Register_prefixes:
  "fst ` set (prefixToRig (Register p rigName reg)) = insert p (fst ` set (prefixToRig reg))"
  by (simp add: Register_def dom_update)

text \<open>
  Claim C5.  \<^verbatim>\<open>IsKnownSession\<close> is true for every name that starts with \<^verbatim>\<open>hq-\<close>,
  whatever the registry holds, the empty registry included.  For a name that does
  not start with \<^verbatim>\<open>hq-\<close> it is true exactly when the name starts with a registered
  prefix followed by \<^verbatim>\<open>-\<close>, and false otherwise; so every name \<^verbatim>\<open>p-...\<close> is known
  once \<open>p\<close> is registered.
\<close>

theorem IsKnownSession_cases:
  "(HasPrefix name ''hq-'' \<longrightarrow> IsKnownSession reg name)
   \<and> IsKnownSession NewPrefixRegistry (''hq-'' @ rest)
   \<and> (\<not> HasPrefix name ''hq-'' \<longrightarrow>
        IsKnownSession reg name = (\<exists>p\<in>fst ` set (prefixToRig reg). HasPrefix name (p @ ''-'')))
   \<and> IsKnownSession (Register p rigName reg) (p @ ''-'' @ rest)"
proof -
  have a: "HasPrefix name ''hq-'' \<longrightarrow> IsKnownSession reg name"
    by (simp add: IsKnownSession_def HQPrefix_def)
  have b: "IsKnownSession NewPrefixRegistry (''hq-'' @ rest)"
    by (simp add: IsKnownSession_def HQPrefix_def HasPrefix_def)
  have c: "\<not> HasPrefix name ''hq-'' \<longrightarrow>
        IsKnownSession reg name = (\<exists>p\<in>fst ` set (prefixToRig reg). HasPrefix name (p @ ''-''))"
    by (simp add: IsKnownSession_def HQPrefix_def matchPrefix_iff)
  have "HasPrefix (p @ ''-'' @ rest) (p @ ''-'')"
    by (simp add: HasPrefix_def)
  then have d: "IsKnownSession (Register p rigName reg) (p @ ''-'' @ rest)"
    unfolding IsKnownSession_def matchPrefix_iff Register_prefixes by auto
  from a b c d show ?thesis by blast
qed

theorem IsKnownSession_cases_witness:
  "IsKnownSession (Register ''xy'' ''xrig'' NewPrefixRegistry) ''hq-mayor''
   \<and> IsKnownSession (Register ''xy'' ''xrig'' NewPrefixRegistry) ''xy-worker''
   \<and> \<not> IsKnownSession (Register ''xy'' ''xrig'' NewPrefixRegistry) ''zz-worker''"
  using IsKnownSession_cases [where name = "''hq-mayor''" and p = "''xy''" and rigName = "''xrig''"
      and reg = "Register ''xy'' ''xrig'' NewPrefixRegistry" and rest = "''worker''"]
    IsKnownSession_cases [where name = "''zz-worker''" and p = "''xy''" and rigName = "''xrig''"
      and reg = NewPrefixRegistry and rest = "''worker''"]
    IsKnownSession_cases [where name = "''zz-worker''" and p = "''xy''" and rigName = "''xrig''"
      and reg = "Register ''xy'' ''xrig'' NewPrefixRegistry" and rest = "''worker''"]
  by (simp add: HasPrefix_def Register_def NewPrefixRegistry_def)

section \<open>Facts about the wait loop\<close>

lemma pollInterval_value: "pollInterval = 5000000000"
  by (simp add: pollInterval_def Second_def)

lemma wait_loop_terminal:
  "poll_at w mb t d i = Terminal out \<Longrightarrow> wait_loop w mb t d i tr = Some (out, tr @ [CountCall])"
  by (subst wait_loop.simps)
     (auto simp: poll_at_def spec_poll_step_def split: sum.splits prod.splits if_splits)

lemma wait_loop_repeat:
  "poll_at w mb t d i = SleepAndRepeat \<Longrightarrow>
     wait_loop w mb t d i tr = wait_loop w mb t d (Suc i) (tr @ [CountCall, Sleep pollInterval])"
  by (subst wait_loop.simps)
     (auto simp: poll_at_def spec_poll_step_def split: sum.splits prod.splits if_splits)

lemma wait_loop_run:
  "(\<forall>j<k. poll_at w mb t d (i + j) = SleepAndRepeat) \<Longrightarrow> poll_at w mb t d (i + k) = Terminal out
   \<Longrightarrow> wait_loop w mb t d i tr
       = Some (out, tr @ concat (replicate k [CountCall, Sleep pollInterval]) @ [CountCall])"
proof (induction k arbitrary: i tr)
  case 0
  then show ?case by (simp add: wait_loop_terminal)
next
  case (Suc k)
  from Suc.prems(1) have "poll_at w mb t d (i + 0) = SleepAndRepeat" by blast
  then have step: "wait_loop w mb t d i tr
      = wait_loop w mb t d (Suc i) (tr @ [CountCall, Sleep pollInterval])"
    by (simp add: wait_loop_repeat)
  have rest: "\<forall>j<k. poll_at w mb t d (Suc i + j) = SleepAndRepeat"
  proof (intro allI impI)
    fix j assume "j < k"
    then have "Suc j < Suc k" by simp
    with Suc.prems(1) have "poll_at w mb t d (i + Suc j) = SleepAndRepeat" by blast
    then show "poll_at w mb t d (Suc i + j) = SleepAndRepeat" by simp
  qed
  from Suc.prems(2) have last: "poll_at w mb t d (Suc i + k) = Terminal out" by simp
  from Suc.IH [OF rest last, of "tr @ [CountCall, Sleep pollInterval]"] step
  show ?case by simp
qed

lemma runMailWait_loop:
  "findBeadsWorkDir w = Inr dir \<Longrightarrow>
     runMailWait lib w t
       = wait_loop w (fst (GetMailbox lib (NewRouter w dir) (detectSender w))) t
           (if t > 0 then time_Now w 0 + seconds t else 0) 0 []"
  by (simp add: runMailWait_def GetMailbox_def Let_def)

section \<open>The wait poller\<close>

text \<open>
  Claim C7.  Every iteration of the loop of \<^verbatim>\<open>runMailWait\<close> first calls
  \<^verbatim>\<open>Count()\<close>.  A failed count ends the run with Errored at once.  An unread count
  above zero ends it with MailArrived.  Otherwise, with a timeout given and the
  clock after the deadline, the run ends with TimedOut and has not slept after that
  count.  Otherwise the loop sleeps five seconds and starts its next iteration.  So a
  run whose first \<open>k\<close> iterations sleep and whose next iteration ends with an
  outcome returns that outcome after exactly \<open>k\<close> sleeps.  The three outcomes leave
  the process with three different exit codes.
\<close>

theorem wait_poller_follows_state_machine:
  "(Mailbox_Count w mb i = Inl e
      \<longrightarrow> wait_loop w mb t d i tr = Some (Errored, tr @ [CountCall]))
   \<and> (Mailbox_Count w mb i = Inr (n, unread) \<and> unread > 0
      \<longrightarrow> wait_loop w mb t d i tr = Some (MailArrived, tr @ [CountCall]))
   \<and> (Mailbox_Count w mb i = Inr (n, unread) \<and> \<not> unread > 0
        \<and> t > 0 \<and> After (time_Now w (Suc i)) d
      \<longrightarrow> wait_loop w mb t d i tr = Some (TimedOut, tr @ [CountCall]))
   \<and> (Mailbox_Count w mb i = Inr (n, unread) \<and> \<not> unread > 0
        \<and> \<not> (t > 0 \<and> After (time_Now w (Suc i)) d)
      \<longrightarrow> wait_loop w mb t d i tr
            = wait_loop w mb t d (Suc i) (tr @ [CountCall, Sleep 5000000000]))
   \<and> ((\<forall>j<k. poll_at w mb t d j = SleepAndRepeat) \<and> poll_at w mb t d k = Terminal out
      \<longrightarrow> wait_loop w mb t d 0 []
            = Some (out, concat (replicate k [CountCall, Sleep 5000000000]) @ [CountCall]))
   \<and> (findBeadsWorkDir w = Inr dir
      \<longrightarrow> runMailWait lib w t
            = wait_loop w (fst (GetMailbox lib (NewRouter w dir) (detectSender w))) t
                (if t > 0 then time_Now w 0 + seconds t else 0) 0 [])
   \<and> (exit_code a = exit_code b) = (a = b)"
proof -
  have c1: "Mailbox_Count w mb i = Inl e
      \<longrightarrow> wait_loop w mb t d i tr = Some (Errored, tr @ [CountCall])"
    using wait_loop_terminal [of w mb t d i Errored tr]
    by (simp add: poll_at_def spec_poll_step_def)
  have c2: "Mailbox_Count w mb i = Inr (n, unread) \<and> unread > 0
      \<longrightarrow> wait_loop w mb t d i tr = Some (MailArrived, tr @ [CountCall])"
    using wait_loop_terminal [of w mb t d i MailArrived tr]
    by (simp add: poll_at_def spec_poll_step_def)
  have c3: "Mailbox_Count w mb i = Inr (n, unread) \<and> \<not> unread > 0
        \<and> t > 0 \<and> After (time_Now w (Suc i)) d
      \<longrightarrow> wait_loop w mb t d i tr = Some (TimedOut, tr @ [CountCall])"
    using wait_loop_terminal [of w mb t d i TimedOut tr]
    by (simp add: poll_at_def spec_poll_step_def)
  have c4: "Mailbox_Count w mb i = Inr (n, unread) \<and> \<not> unread > 0
        \<and> \<not> (t > 0 \<and> After (time_Now w (Suc i)) d)
      \<longrightarrow> wait_loop w mb t d i tr
            = wait_loop w mb t d (Suc i) (tr @ [CountCall, Sleep 5000000000])"
    using wait_loop_repeat [of w mb t d i tr]
    by (auto simp: poll_at_def spec_poll_step_def pollInterval_value)
  have c5: "(\<forall>j<k. poll_at w mb t d j = SleepAndRepeat) \<and> poll_at w mb t d k = Terminal out
      \<longrightarrow> wait_loop w mb t d 0 []
            = Some (out, concat (replicate k [CountCall, Sleep 5000000000]) @ [CountCall])"
    using wait_loop_run [of k w mb t d 0 out "[]"]
    by (simp add: pollInterval_value)
  have c6: "findBeadsWorkDir w = Inr dir
      \<longrightarrow> runMailWait lib w t
            = wait_loop w (fst (GetMailbox lib (NewRouter w dir) (detectSender w))) t
                (if t > 0 then time_Now w 0 + seconds t else 0) 0 []"
    using runMailWait_loop [of w dir lib t] by blast
  have c7: "(exit_code a = exit_code b) = (a = b)"
    by (cases a; cases b) simp_all
  from c1 c2 c3 c4 c5 c6 c7 show ?thesis
    by blast
qed

theorem wait_poller_follows_state_machine_witness:
  "runMailWait example_lib
      (example_world (None, '''') (example_tmux (Inr True)) (Inl ''not found'')) 0
     = Some (MailArrived,
         [CountCall, Sleep 5000000000, CountCall, Sleep 5000000000, CountCall])
   \<and> runMailWait example_lib
      (example_world (None, '''') (example_tmux (Inr True)) (Inl ''not found'')) 3
     = Some (TimedOut, [CountCall])"
proof -
  let ?w = "example_world (None, '''') (example_tmux (Inr True)) (Inl ''not found'')"
  let ?mb = "fst (GetMailbox example_lib (NewRouter ?w ''/town'') (detectSender ?w))"
  have c: "Mailbox_Count ?w = (\<lambda>mailbox i. if i < 2 then Inr (3, 0) else Inr (4, 1))"
    by (simp add: example_world_def)
  have n: "time_Now ?w = (\<lambda>i. 1000 + int i * 5000000000)"
    by (simp add: example_world_def)
  have s: "\<forall>j<2. poll_at ?w ?mb 0 0 j = SleepAndRepeat"
    by (simp add: poll_at_def spec_poll_step_def c)
  have l: "poll_at ?w ?mb 0 0 2 = Terminal MailArrived"
    by (simp add: poll_at_def spec_poll_step_def c)
  have f: "findBeadsWorkDir ?w = Inr ''/town''"
    by (simp add: example_world_simps)
  have d: "seconds 3 = 3000000000"
    by (simp add: seconds_def Second_def)
  have a: "After (time_Now ?w (Suc 0)) (time_Now ?w 0 + seconds 3)"
    by (simp add: n d After_def)
  from wait_poller_follows_state_machine [where w = ?w and mb = ?mb and t = 0 and d = 0
      and k = 2 and out = MailArrived and dir = "''/town''" and lib = example_lib] s l f
  have first: "runMailWait example_lib ?w 0
     = Some (MailArrived,
         [CountCall, Sleep 5000000000, CountCall, Sleep 5000000000, CountCall])"
    by (simp add: numeral_2_eq_2)
  from wait_poller_follows_state_machine [where w = ?w and mb = ?mb and t = 3
      and d = "time_Now ?w 0 + seconds 3" and i = 0 and n = 3 and unread = 0 and tr = "[]"
      and dir = "''/town''" and lib = example_lib] f a
  have second: "runMailWait example_lib ?w 3 = Some (TimedOut, [CountCall])"
    by (simp add: c)
  from first second show ?thesis by simp
qed

end
